theory Spec2Isabelle
  imports Main "HOL-Library.AList"
begin

section \<open>The scraper of \<^verbatim>\<open>src/scraping.py\<close>\<close>

text \<open>
  The class \<^verbatim>\<open>PokemonScraping\<close> fetches a listing page, visits the detail page of
  every listed entity, flattens the attribute tables of each page into one dictionary,
  appends that dictionary as a row of a pandas frame, and finally writes the frame to an
  Oracle table.

  Three libraries stay outside the model and are represented by what the code asks of
  them:
  \<^item> \<^verbatim>\<open>requests\<close> and \<^verbatim>\<open>BeautifulSoup\<close>: a function from a URL to either an exception or a
    parsed document. A document is the answers to the queries the code runs on it.
  \<^item> \<^verbatim>\<open>pandas\<close>: a frame is a list of column labels and a list of rows of cells aligned
    to the labels; a missing cell (NaN) is \<open>None\<close>.
  \<^item> \<^verbatim>\<open>sqlalchemy\<close> and \<^verbatim>\<open>oracledb\<close>: a store that logs every connection attempt and holds
    the tables written to it.

  Python exceptions are values of \<open>error\<close>. A method of the class returns the raised
  exception, if any, together with the object as it is at that moment: the object
  outlives a raise.
\<close>

subsection \<open>Data\<close>

datatype error =
    RequestException
  | AttributeError
  | KeyError string
  | ValueError
  | DatabaseError

text \<open>
  A Python \<^verbatim>\<open>dict\<close> of strings keeps its keys in insertion order, and that order becomes
  the column order of a frame: an association list.
\<close>

type_synonym dict = "(string \<times> string) list"

text \<open>
  One \<^verbatim>\<open>tr\<close> of an attribute table: \<open>th\<close> is \<^verbatim>\<open>tr.find("th")\<close> followed by
  \<^verbatim>\<open>get_text(strip=True)\<close>, \<open>td\<close> is \<^verbatim>\<open>tr.find("td")\<close> followed by
  \<^verbatim>\<open>get_text(" ", strip=True)\<close>; \<open>None\<close> when \<^verbatim>\<open>find\<close> returns \<^verbatim>\<open>None\<close>.
\<close>

record tr_row =
  th :: "string option"
  td :: "string option"

text \<open>
  A parsed page: \<open>anchors\<close> are the attribute dictionaries of the tags matched by
  \<^verbatim>\<open>div.infocard > span.infocard-lg-img > a\<close>, in document order; \<open>main_h1\<close> is the stripped
  text of the first tag matched by \<^verbatim>\<open>#main > h1\<close>; \<open>tab_basic_tables\<close> are the tables
  matched by \<^verbatim>\<open>[id^="tab-basic-"] table\<close>, each as the list of its \<^verbatim>\<open>tr\<close> rows.
\<close>

record document =
  anchors :: "dict list"
  main_h1 :: "string option"
  tab_basic_tables :: "tr_row list list"

type_synonym web = "string \<Rightarrow> error + document"

record data_frame =
  columns :: "string list"
  rows :: "string option list list"

record scraper =
  url_path :: "string option"
  pokemon_url_suffixes :: "string list"
  soup :: "document option"
  pokemon_dict_data :: dict
  dataframe :: "data_frame option"

text \<open>
  The relational store: \<open>connections\<close> logs every connection attempt as
  (user, password, dsn), \<open>online\<close> says whether an attempt succeeds, \<open>db_tables\<close> maps a
  table name to its contents.
\<close>

record store =
  connections :: "(string \<times> string \<times> string) list"
  online :: bool
  db_tables :: "(string \<times> data_frame) list"

subsection \<open>Dictionaries\<close>

text \<open>\<^verbatim>\<open>d[k]\<close>: raises \<^verbatim>\<open>KeyError\<close> on a missing key.\<close>

definition getitem :: "dict \<Rightarrow> string \<Rightarrow> error + string" where
  "getitem d k = (case map_of d k of None \<Rightarrow> Inl (KeyError k) | Some v \<Rightarrow> Inr v)"

text \<open>\<^verbatim>\<open>d[k] = v\<close>: an existing key keeps its position, a new key goes last.\<close>

primrec setitem :: "string \<Rightarrow> string \<Rightarrow> dict \<Rightarrow> dict" where
  "setitem k v [] = [(k, v)]"
| "setitem k v (p # ps) = (if fst p = k then (k, v) # ps else p # setitem k v ps)"

text \<open>\<^verbatim>\<open>d.update(other)\<close>: the items of \<open>other\<close> are stored in their order.\<close>

definition dict_update :: "dict \<Rightarrow> dict \<Rightarrow> dict" where
  "dict_update d other = fold (\<lambda>(k, v). setitem k v) other d"

subsection \<open>Fetching and the listing page\<close>

definition fetch_soup :: "web \<Rightarrow> string \<Rightarrow> scraper \<Rightarrow> error option \<times> scraper" where
  "fetch_soup web path s =
     (case web path of
        Inl e \<Rightarrow> (Some e, s)
      | Inr doc \<Rightarrow> (None, s\<lparr>soup := Some doc\<rparr>))"

text \<open>The comprehension \<^verbatim>\<open>[tag["href"] for tag in tags]\<close>.\<close>

fun collect_hrefs :: "dict list \<Rightarrow> error + string list" where
  "collect_hrefs [] = Inr []"
| "collect_hrefs (tag # tags) =
     (case getitem tag ''href'' of
        Inl e \<Rightarrow> Inl e
      | Inr h \<Rightarrow> (case collect_hrefs tags of Inl e \<Rightarrow> Inl e | Inr hs \<Rightarrow> Inr (h # hs)))"

text \<open>
  \<^verbatim>\<open>requests.get(None)\<close> raises \<^verbatim>\<open>MissingSchema\<close>, a \<^verbatim>\<open>RequestException\<close>; a method called on
  an unset \<open>soup\<close> raises \<^verbatim>\<open>AttributeError\<close>.
\<close>

definition get_urls :: "web \<Rightarrow> scraper \<Rightarrow> error option \<times> scraper" where
  "get_urls web s =
     (case url_path s of
        None \<Rightarrow> (Some RequestException, s)
      | Some path \<Rightarrow>
         (case fetch_soup web path s of
            (Some e, s1) \<Rightarrow> (Some e, s1)
          | (None, s1) \<Rightarrow>
             (case soup s1 of
                None \<Rightarrow> (Some AttributeError, s1)
              | Some doc \<Rightarrow>
                 (case collect_hrefs (anchors doc) of
                    Inl e \<Rightarrow> (Some e, s1)
                  | Inr hs \<Rightarrow> (None, s1\<lparr>pokemon_url_suffixes := hs\<rparr>)))))"

definition build_pokemon_url :: "string \<Rightarrow> string" where
  "build_pokemon_url pokemon_suffix = ''https://pokemondb.net'' @ pokemon_suffix"

subsection \<open>The detail page\<close>

definition get_table_dict :: "tr_row list \<Rightarrow> dict" where
  "get_table_dict table =
     fold (\<lambda>tr data.
            (case th tr of
               None \<Rightarrow> data
             | Some key \<Rightarrow> (case td tr of None \<Rightarrow> data | Some val \<Rightarrow> setitem key val data)))
          table []"

text \<open>The loop \<^verbatim>\<open>for table in tables: self.pokemon_dict_data.update(...)\<close>.\<close>

definition merge_tables :: "tr_row list list \<Rightarrow> dict \<Rightarrow> dict" where
  "merge_tables tables d = fold (\<lambda>table d. dict_update d (get_table_dict table)) tables d"

text \<open>
  \<^verbatim>\<open>select_one\<close> returns \<^verbatim>\<open>None\<close> when no tag matches, and \<^verbatim>\<open>None.get_text\<close> raises
  \<^verbatim>\<open>AttributeError\<close> before the dictionary is touched.
\<close>

definition get_pokemon_data :: "web \<Rightarrow> string \<Rightarrow> scraper \<Rightarrow> error option \<times> scraper" where
  "get_pokemon_data web url s =
     (case fetch_soup web url s of
        (Some e, s1) \<Rightarrow> (Some e, s1)
      | (None, s1) \<Rightarrow>
         (case soup s1 of
            None \<Rightarrow> (Some AttributeError, s1)
          | Some doc \<Rightarrow>
             (case main_h1 doc of
                None \<Rightarrow> (Some AttributeError, s1)
              | Some pokemon_name \<Rightarrow>
                 (None, s1\<lparr>pokemon_dict_data :=
                    merge_tables (tab_basic_tables doc)
                      (setitem ''Pokemon Name'' pokemon_name (pokemon_dict_data s1))\<rparr>))))"

subsection \<open>The frame\<close>

text \<open>\<^verbatim>\<open>pd.DataFrame([d])\<close>: one row, the keys of \<open>d\<close> as columns.\<close>

definition row_frame :: "dict \<Rightarrow> data_frame" where
  "row_frame d = \<lparr>columns = map fst d, rows = [map (\<lambda>kv. Some (snd kv)) d]\<rparr>"

text \<open>A row laid out on new column labels; a label the row does not have gives NaN.\<close>

definition reindex :: "string list \<Rightarrow> string list \<Rightarrow> string option list \<Rightarrow> string option list" where
  "reindex old new r =
     map (\<lambda>c. (case map_of (zip old r) c of None \<Rightarrow> None | Some x \<Rightarrow> x)) new"

text \<open>
  \<^verbatim>\<open>pd.concat([a, b], ignore_index=True)\<close> on frames with unique column labels: the
  columns of \<open>a\<close>, then those of \<open>b\<close> that \<open>a\<close> lacks, in the order of \<open>b\<close>; the rows of
  \<open>a\<close>, then those of \<open>b\<close>.
\<close>

definition concat_frames :: "data_frame \<Rightarrow> data_frame \<Rightarrow> data_frame" where
  "concat_frames a b =
     (let cols = columns a @ filter (\<lambda>c. c \<notin> set (columns a)) (columns b)
      in \<lparr>columns = cols,
          rows = map (reindex (columns a) cols) (rows a) @ map (reindex (columns b) cols) (rows b)\<rparr>)"

definition build_database :: "scraper \<Rightarrow> scraper" where
  "build_database s =
     (let row = row_frame (pokemon_dict_data s)
      in (case dataframe s of
            None \<Rightarrow> s\<lparr>dataframe := Some row\<rparr>
          | Some df \<Rightarrow> s\<lparr>dataframe := Some (concat_frames df row)\<rparr>))"

subsection \<open>Persisting\<close>

text \<open>
  \<^verbatim>\<open>DataFrame.to_sql(name, con, if_exists="replace", index=False)\<close>: the engine opens a
  connection with the credentials, and the named table is replaced by the frame.
\<close>

definition to_sql :: "data_frame \<Rightarrow> string \<Rightarrow> string \<times> string \<times> string \<Rightarrow> store
    \<Rightarrow> error option \<times> store" where
  "to_sql df name cred st =
     (let st1 = st\<lparr>connections := connections st @ [cred]\<rparr>
      in if online st
         then (None, st1\<lparr>db_tables := AList.update name df (db_tables st1)\<rparr>)
         else (Some DatabaseError, st1))"

text \<open>
  The six reads of \<open>conn\<close> happen in the order of the source, each raising \<^verbatim>\<open>KeyError\<close> on
  a missing key. The values are carried as text: they are only interpolated in the dsn.
\<close>

definition save_dataframe_to_oracle :: "scraper \<Rightarrow> dict \<Rightarrow> store \<Rightarrow> error option \<times> store" where
  "save_dataframe_to_oracle s conn st =
     (case dataframe s of
        None \<Rightarrow> (Some ValueError, st)
      | Some df \<Rightarrow>
     (case getitem conn ''user'' of Inl e \<Rightarrow> (Some e, st) | Inr user \<Rightarrow>
     (case getitem conn ''password'' of Inl e \<Rightarrow> (Some e, st) | Inr password \<Rightarrow>
     (case getitem conn ''host'' of Inl e \<Rightarrow> (Some e, st) | Inr host \<Rightarrow>
     (case getitem conn ''port'' of Inl e \<Rightarrow> (Some e, st) | Inr port \<Rightarrow>
     (case getitem conn ''service'' of Inl e \<Rightarrow> (Some e, st) | Inr service \<Rightarrow>
     (case getitem conn ''table_name'' of Inl e \<Rightarrow> (Some e, st) | Inr table_name \<Rightarrow>
        to_sql df table_name (user, password, host @ '':'' @ port @ ''/'' @ service) st)))))))"

subsection \<open>The run\<close>

fun scrape_loop :: "web \<Rightarrow> string list \<Rightarrow> scraper \<Rightarrow> error option \<times> scraper" where
  "scrape_loop web [] s = (None, s)"
| "scrape_loop web (pokemon_url_suffix # rest) s =
     (case get_pokemon_data web (build_pokemon_url pokemon_url_suffix) s of
        (Some e, s1) \<Rightarrow> (Some e, s1)
      | (None, s1) \<Rightarrow> scrape_loop web rest (build_database s1))"

definition run_scraping :: "web \<Rightarrow> scraper \<Rightarrow> error option \<times> scraper" where
  "run_scraping web s =
     (case get_urls web s of
        (Some e, s1) \<Rightarrow> (Some e, s1)
      | (None, s1) \<Rightarrow> scrape_loop web (pokemon_url_suffixes s1) s1)"

text \<open>The object \<^verbatim>\<open>PokemonScraping(url_path=...)\<close> with every other field at its default.\<close>

definition new_scraper :: "string option \<Rightarrow> scraper" where
  "new_scraper p =
     \<lparr>url_path = p, pokemon_url_suffixes = [], soup = None,
      pokemon_dict_data = [], dataframe = None\<rparr>"

text \<open>
  The script at the end of the file: run, then persist. The connection dictionary of the
  source is a template the user fills in (its \<^verbatim>\<open>port\<close> entry has no value), so it is a
  parameter here. A raise in the run ends the script before the store is reached.
\<close>

definition main :: "web \<Rightarrow> dict \<Rightarrow> store \<Rightarrow> error option \<times> scraper \<times> store" where
  "main web connection st =
     (case run_scraping web (new_scraper (Some ''https://pokemondb.net/pokedex/national'')) of
        (Some e, s1) \<Rightarrow> (Some e, s1, st)
      | (None, s1) \<Rightarrow>
         (case save_dataframe_to_oracle s1 connection st of (r, st1) \<Rightarrow> (r, s1, st1)))"

section \<open>Notions of the specification\<close>

subsection \<open>Header and data pairs of a page\<close>

text \<open>
  The header/data pairs a table contributes, in document order: one pair for every
  \<^verbatim>\<open>tr\<close> that has both a \<^verbatim>\<open>th\<close> and a \<^verbatim>\<open>td\<close>.
\<close>

definition table_pairs :: "tr_row list \<Rightarrow> dict" where
  "table_pairs table =
     concat (map (\<lambda>tr. (case th tr of
                           None \<Rightarrow> []
                         | Some k \<Rightarrow> (case td tr of None \<Rightarrow> [] | Some v \<Rightarrow> [(k, v)])))
                 table)"

definition doc_pairs :: "document \<Rightarrow> dict" where
  "doc_pairs doc = concat (map table_pairs (tab_basic_tables doc))"

text \<open>The attribute keys of a page, each once: their number is the M of the specification.\<close>

definition unique_keys :: "document \<Rightarrow> string list" where
  "unique_keys doc = remdups (map fst (doc_pairs doc))"

text \<open>
  The keys a page writes into the attribute mapping: none when the heading is missing
  (the extraction raises first), else the reserved key and the attribute keys.
\<close>

definition page_keys :: "document \<Rightarrow> string list" where
  "page_keys doc =
     (case main_h1 doc of
        None \<Rightarrow> []
      | Some name \<Rightarrow> ''Pokemon Name'' # map fst (doc_pairs doc))"

subsection \<open>Tables\<close>

text \<open>Appending a sequence of rows one at a time, each through \<open>build_database\<close>.\<close>

fun append_rows :: "scraper \<Rightarrow> dict list \<Rightarrow> scraper" where
  "append_rows s [] = s"
| "append_rows s (d # ds) = append_rows (build_database (s\<lparr>pokemon_dict_data := d\<rparr>)) ds"

text \<open>The union of the key sets of a sequence of rows, in order of first appearance.\<close>

definition union_columns :: "dict list \<Rightarrow> string list" where
  "union_columns ds = rev (remdups (rev (concat (map (map fst) ds))))"

text \<open>
  The table of a whole batch of rows, as the specification words it: the columns are the
  union of the key sets, and every row holds, for every column, its value for that key or
  the empty value. A batch of no rows leaves the table unset.
\<close>

definition batch_table :: "dict list \<Rightarrow> data_frame option" where
  "batch_table ds =
     (if ds = [] then None
      else Some \<lparr>columns = union_columns ds,
                 rows = map (\<lambda>d. map (map_of d) (union_columns ds)) ds\<rparr>)"

text \<open>
  The cell of a row under a column label: \<open>None\<close> when the frame has no such column,
  \<open>Some None\<close> for NaN, \<open>Some (Some v)\<close> for the text \<open>v\<close>.
\<close>

definition cell :: "data_frame \<Rightarrow> string option list \<Rightarrow> string \<Rightarrow> string option option" where
  "cell df r c = map_of (zip (columns df) r) c"

text \<open>The table is unset or has at least one row.\<close>

definition unset_or_rows :: "data_frame option \<Rightarrow> bool" where
  "unset_or_rows t = (case t of None \<Rightarrow> True | Some df \<Rightarrow> rows df \<noteq> [])"

text \<open>
  Every row of the table has a text in the display-name column, and the text satisfies
  \<open>P\<close>.
\<close>

definition names_satisfy :: "(string \<Rightarrow> bool) \<Rightarrow> data_frame option \<Rightarrow> bool" where
  "names_satisfy P t =
     (case t of
        None \<Rightarrow> True
      | Some df \<Rightarrow>
          list_all (\<lambda>r. (case cell df r ''Pokemon Name'' of
                            Some (Some v) \<Rightarrow> P v
                          | _ \<Rightarrow> False))
                   (rows df))"

text \<open>Every row of the table has a text, possibly empty, in the display-name column.\<close>

definition names_filled :: "data_frame option \<Rightarrow> bool" where
  "names_filled t = names_satisfy (\<lambda>v. True) t"

text \<open>Every row of the table has a non-empty text in the display-name column.\<close>

definition names_nonempty :: "data_frame option \<Rightarrow> bool" where
  "names_nonempty t = names_satisfy (\<lambda>v. v \<noteq> []) t"

text \<open>
  A page whose heading text is not empty and which has no attribute row labelled with the
  reserved key and holding empty data.
\<close>

definition named_page :: "document \<Rightarrow> bool" where
  "named_page doc =
     (main_h1 doc \<noteq> Some [] \<and> (''Pokemon Name'', []) \<notin> set (doc_pairs doc))"

text \<open>The detail pages of the listed entities that can be fetched are all such pages.\<close>

definition named_pages :: "web \<Rightarrow> string list \<Rightarrow> bool" where
  "named_pages web ls =
     list_all (\<lambda>u. (case web (build_pokemon_url u) of
                       Inl e \<Rightarrow> True
                     | Inr doc \<Rightarrow> named_page doc))
              ls"

text \<open>The keys a connection dictionary must have, in the order they are read.\<close>

definition required_keys :: "string list" where
  "required_keys = [''user'', ''password'', ''host'', ''port'', ''service'', ''table_name'']"

section \<open>Example inputs\<close>

definition national_url :: string where
  "national_url = ''https://pokemondb.net/pokedex/national''"

definition listing_doc :: document where
  "listing_doc =
     \<lparr>anchors = [[(''href'', ''/pokedex/1'')], [(''href'', ''/pokedex/2'')]],
      main_h1 = None, tab_basic_tables = []\<rparr>"

definition bulbasaur_doc :: document where
  "bulbasaur_doc =
     \<lparr>anchors = [], main_h1 = Some ''Bulbasaur'',
      tab_basic_tables = [[\<lparr>th = Some ''Type'', td = Some ''Grass / Poison''\<rparr>]]\<rparr>"

definition ivysaur_doc :: document where
  "ivysaur_doc = \<lparr>anchors = [], main_h1 = Some ''Ivysaur'', tab_basic_tables = []\<rparr>"

text \<open>The two-entity site of the end-to-end scenario.\<close>

definition e2e_web :: web where
  "e2e_web url =
     (if url = ''https://pokemondb.net/pokedex/national'' then Inr listing_doc
      else if url = ''https://pokemondb.net/pokedex/1'' then Inr bulbasaur_doc
      else if url = ''https://pokemondb.net/pokedex/2'' then Inr ivysaur_doc
      else Inl RequestException)"

text \<open>The same site with the heading of the second entity missing.\<close>

definition headless_doc :: document where
  "headless_doc = \<lparr>anchors = [], main_h1 = None, tab_basic_tables = []\<rparr>"

definition headless_web :: web where
  "headless_web url =
     (if url = ''https://pokemondb.net/pokedex/national'' then Inr listing_doc
      else if url = ''https://pokemondb.net/pokedex/1'' then Inr bulbasaur_doc
      else if url = ''https://pokemondb.net/pokedex/2'' then Inr headless_doc
      else Inl RequestException)"

text \<open>A site with one entity whose heading has no text.\<close>

definition blank_listing_doc :: document where
  "blank_listing_doc =
     \<lparr>anchors = [[(''href'', ''/pokedex/1'')]], main_h1 = None, tab_basic_tables = []\<rparr>"

definition blank_doc :: document where
  "blank_doc = \<lparr>anchors = [], main_h1 = Some [], tab_basic_tables = []\<rparr>"

definition blank_web :: web where
  "blank_web url =
     (if url = ''https://pokemondb.net/pokedex/national'' then Inr blank_listing_doc
      else if url = ''https://pokemondb.net/pokedex/1'' then Inr blank_doc
      else Inl RequestException)"

text \<open>A page with an attribute row labelled like the reserved key.\<close>

definition alias_doc :: document where
  "alias_doc =
     \<lparr>anchors = [], main_h1 = Some ''Bulbasaur'',
      tab_basic_tables = [[\<lparr>th = Some ''Pokemon Name'', td = Some ''Fushigidane''\<rparr>]]\<rparr>"

text \<open>A page with one key in two tables.\<close>

definition twice_doc :: document where
  "twice_doc =
     \<lparr>anchors = [], main_h1 = Some ''Eevee'',
      tab_basic_tables =
        [[\<lparr>th = Some ''Type'', td = Some ''Normal''\<rparr>, \<lparr>th = Some ''Height'', td = None\<rparr>],
         [\<lparr>th = Some ''Type'', td = Some ''Fairy''\<rparr>]]\<rparr>"

definition full_conn :: dict where
  "full_conn =
     [(''user'', ''scott''), (''password'', ''tiger''), (''host'', ''db''),
      (''port'', ''1521''), (''service'', ''XE''), (''table_name'', ''master_pokemon'')]"

definition empty_store :: store where
  "empty_store = \<lparr>connections = [], online = True, db_tables = []\<rparr>"

text \<open>A frame with a column and no row.\<close>

definition zero_row_frame :: data_frame where
  "zero_row_frame = \<lparr>columns = [''Pokemon Name''], rows = []\<rparr>"

text \<open>A site that serves one page at every address.\<close>

definition only_page :: "document \<Rightarrow> web" where
  "only_page doc url = Inr doc"

section \<open>Dictionaries: what the stores do\<close>

lemma setitem_update: "setitem k v d = AList.update k v d"
  by (induction d) auto

lemma map_of_setitem: "map_of (setitem k v d) = (map_of d)(k \<mapsto> v)"
  by (simp add: setitem_update update_conv')

lemma keys_setitem: "fst ` set (setitem k v d) = insert k (fst ` set d)"
  by (induction d) auto

lemma distinct_setitem: "distinct (map fst d) \<Longrightarrow> distinct (map fst (setitem k v d))"
  by (simp add: setitem_update distinct_update)

lemma map_of_dict_update: "map_of (dict_update d other) = map_of d ++ map_of (rev other)"
  unfolding dict_update_def
proof (induction other arbitrary: d)
  case Nil
  then show ?case by simp
next
  case (Cons p ps)
  obtain k v where p: "p = (k, v)" by (cases p)
  have "map_of (setitem k v d) ++ map_of (rev ps) = map_of d ++ map_of (rev ps @ [(k, v)])"
    by (rule ext) (simp add: map_of_setitem map_add_def split: option.splits)
  then show ?case
    by (simp add: p Cons.IH)
qed

lemma keys_dict_update:
  "fst ` set (dict_update d other) = fst ` set d \<union> fst ` set other"
  unfolding dict_update_def
proof (induction other arbitrary: d)
  case Nil
  then show ?case by simp
next
  case (Cons p ps)
  obtain k v where p: "p = (k, v)" by (cases p)
  show ?case
    by (simp add: p Cons.IH keys_setitem)
qed

lemma distinct_dict_update:
  "distinct (map fst d) \<Longrightarrow> distinct (map fst (dict_update d other))"
  unfolding dict_update_def
proof (induction other arbitrary: d)
  case Nil
  then show ?case by simp
next
  case (Cons p ps)
  obtain k v where p: "p = (k, v)" by (cases p)
  show ?case
    using Cons.prems by (simp add: p Cons.IH distinct_setitem)
qed

lemma map_of_rev_distinct: "distinct (map fst xs) \<Longrightarrow> map_of (rev xs) = map_of xs"
  by (subst map_of_inject_set) (simp_all add: rev_map [symmetric])

section \<open>The detail extractor\<close>

text \<open>The dictionary of a table is its pairs stored one after the other.\<close>

lemma table_fold_pairs:
  "fold (\<lambda>tr data.
          (case th tr of
             None \<Rightarrow> data
           | Some key \<Rightarrow> (case td tr of None \<Rightarrow> data | Some val \<Rightarrow> setitem key val data)))
        table acc
   = dict_update acc (table_pairs table)"
  by (induction table arbitrary: acc)
     (simp_all add: dict_update_def table_pairs_def split: option.splits)

lemma get_table_dict_pairs: "get_table_dict table = dict_update [] (table_pairs table)"
  by (simp add: get_table_dict_def table_fold_pairs)

lemma distinct_get_table_dict: "distinct (map fst (get_table_dict table))"
  by (simp add: get_table_dict_pairs distinct_dict_update)

lemma map_of_get_table_dict: "map_of (get_table_dict table) = map_of (rev (table_pairs table))"
  by (simp add: get_table_dict_pairs map_of_dict_update)

lemma keys_get_table_dict: "fst ` set (get_table_dict table) = fst ` set (table_pairs table)"
  by (simp add: get_table_dict_pairs keys_dict_update)

text \<open>After the loop over the tables a key holds the data of its last pair in the page.\<close>

lemma map_of_merge_tables:
  "map_of (merge_tables ts d) = map_of d ++ map_of (rev (concat (map table_pairs ts)))"
  unfolding merge_tables_def
proof (induction ts arbitrary: d)
  case Nil
  then show ?case by simp
next
  case (Cons t ts)
  have "map_of (rev (get_table_dict t)) = map_of (rev (table_pairs t))"
    using distinct_get_table_dict [of t]
    by (simp add: map_of_rev_distinct map_of_get_table_dict)
  then show ?case
    by (simp add: Cons.IH map_of_dict_update)
qed

lemma keys_merge_tables:
  "fst ` set (merge_tables ts d) = fst ` set d \<union> fst ` set (concat (map table_pairs ts))"
  unfolding merge_tables_def
  by (induction ts arbitrary: d)
     (auto simp: keys_dict_update keys_get_table_dict)

lemma distinct_merge_tables:
  "distinct (map fst d) \<Longrightarrow> distinct (map fst (merge_tables ts d))"
  unfolding merge_tables_def
  by (induction ts arbitrary: d) (simp_all add: distinct_dict_update)

text \<open>The three ways a call of the extractor ends.\<close>

lemma get_pokemon_data_ok:
  assumes "web url = Inr doc" and "main_h1 doc = Some name"
  shows "get_pokemon_data web url s =
           (None, s\<lparr>soup := Some doc,
                     pokemon_dict_data :=
                       merge_tables (tab_basic_tables doc)
                         (setitem ''Pokemon Name'' name (pokemon_dict_data s))\<rparr>)"
  using assms by (simp add: get_pokemon_data_def fetch_soup_def)

lemma get_pokemon_data_headless:
  assumes "web url = Inr doc" and "main_h1 doc = None"
  shows "get_pokemon_data web url s = (Some AttributeError, s\<lparr>soup := Some doc\<rparr>)"
  using assms by (simp add: get_pokemon_data_def fetch_soup_def)

lemma get_pokemon_data_unfetched:
  assumes "web url = Inl e"
  shows "get_pokemon_data web url s = (Some e, s)"
  using assms by (simp add: get_pokemon_data_def fetch_soup_def)

text \<open>
  Claim C5, as amended. On a scraper whose attribute mapping is empty, a page with a
  heading whose tables contribute M distinct attribute keys, none of them the reserved
  key \<^verbatim>\<open>Pokemon Name\<close>, leaves a mapping of exactly M + 1 keys: the reserved key, holding
  the heading, and the M attribute keys, each holding the data of its last pair in
  document order, so that a later table wins over an earlier one.
\<close>

theorem detail_extractor_key_count:
  assumes fetched: "web url = Inr doc"
    and heading: "main_h1 doc = Some name"
    and fresh: "pokemon_dict_data s = []"
    and reserved: "''Pokemon Name'' \<notin> set (unique_keys doc)"
  shows "fst (get_pokemon_data web url s) = None
    \<and> length (pokemon_dict_data (snd (get_pokemon_data web url s))) = length (unique_keys doc) + 1
    \<and> distinct (map fst (pokemon_dict_data (snd (get_pokemon_data web url s))))
    \<and> set (map fst (pokemon_dict_data (snd (get_pokemon_data web url s))))
         = insert ''Pokemon Name'' (set (unique_keys doc))
    \<and> map_of (pokemon_dict_data (snd (get_pokemon_data web url s))) ''Pokemon Name'' = Some name
    \<and> (\<forall>k \<in> set (unique_keys doc).
          map_of (pokemon_dict_data (snd (get_pokemon_data web url s))) k
            = map_of (rev (doc_pairs doc)) k)"
proof -
  let ?d = "merge_tables (tab_basic_tables doc) [(''Pokemon Name'', name)]"
  have run: "get_pokemon_data web url s = (None, s\<lparr>soup := Some doc, pokemon_dict_data := ?d\<rparr>)"
    using get_pokemon_data_ok [of web url doc name s] fetched heading fresh by simp
  have dist: "distinct (map fst ?d)"
    by (rule distinct_merge_tables) simp
  have keys: "fst ` set ?d = insert ''Pokemon Name'' (set (unique_keys doc))"
    using keys_merge_tables [of "tab_basic_tables doc" "[(''Pokemon Name'', name)]"]
    by (simp add: unique_keys_def doc_pairs_def)
  have "length ?d = card (set (map fst ?d))"
    using distinct_card [OF dist] by simp
  also have "\<dots> = card (set (unique_keys doc)) + 1"
    using reserved by (simp add: keys)
  also have "\<dots> = length (unique_keys doc) + 1"
    by (simp add: unique_keys_def length_remdups_card_conv)
  finally have len: "length ?d = length (unique_keys doc) + 1" .
  have m: "map_of ?d = [''Pokemon Name'' \<mapsto> name] ++ map_of (rev (doc_pairs doc))"
    by (simp add: map_of_merge_tables doc_pairs_def)
  have nokey: "map_of (rev (doc_pairs doc)) ''Pokemon Name'' = None"
    using reserved by (simp add: unique_keys_def map_of_eq_None_iff)
  have name: "map_of ?d ''Pokemon Name'' = Some name"
    by (simp add: m map_add_def nokey)
  have later: "\<forall>k \<in> set (unique_keys doc). map_of ?d k = map_of (rev (doc_pairs doc)) k"
  proof
    fix k
    assume "k \<in> set (unique_keys doc)"
    then have "k \<in> fst ` set (rev (doc_pairs doc))"
      by (simp add: unique_keys_def)
    then obtain v where "map_of (rev (doc_pairs doc)) k = Some v"
      by (metis map_of_eq_None_iff not_Some_eq)
    then show "map_of ?d k = map_of (rev (doc_pairs doc)) k"
      by (simp add: m map_add_def)
  qed
  show ?thesis
    using len dist keys name later by (simp add: run)
qed

theorem detail_extractor_key_count_witness:
  "only_page twice_doc ''/pokedex/133'' = Inr twice_doc
   \<and> main_h1 twice_doc = Some ''Eevee''
   \<and> pokemon_dict_data (new_scraper None) = []
   \<and> ''Pokemon Name'' \<notin> set (unique_keys twice_doc)
   \<and> length (unique_keys twice_doc) = 1
   \<and> length (pokemon_dict_data
        (snd (get_pokemon_data (only_page twice_doc) ''/pokedex/133'' (new_scraper None)))) = 2
   \<and> map_of (pokemon_dict_data
        (snd (get_pokemon_data (only_page twice_doc) ''/pokedex/133'' (new_scraper None))))
        ''Type'' = Some ''Fairy''"
  using detail_extractor_key_count
    [of "only_page twice_doc" "''/pokedex/133''" twice_doc "''Eevee''" "new_scraper None"]
  by (simp add: only_page_def twice_doc_def new_scraper_def unique_keys_def doc_pairs_def
      table_pairs_def)

text \<open>
  The claim as stated fails on a page with an attribute row labelled \<^verbatim>\<open>Pokemon Name\<close>: the
  row overwrites the heading, and the mapping has M keys, not M + 1.
\<close>

theorem detail_extractor_key_count_counterexample:
  "main_h1 alias_doc = Some ''Bulbasaur''
   \<and> length (unique_keys alias_doc) = 1
   \<and> fst (get_pokemon_data (only_page alias_doc) ''/pokedex/1'' (new_scraper None)) = None
   \<and> pokemon_dict_data
        (snd (get_pokemon_data (only_page alias_doc) ''/pokedex/1'' (new_scraper None)))
      = [(''Pokemon Name'', ''Fushigidane'')]
   \<and> length (pokemon_dict_data
        (snd (get_pokemon_data (only_page alias_doc) ''/pokedex/1'' (new_scraper None))))
      \<noteq> length (unique_keys alias_doc) + 1"
  by (simp add: only_page_def alias_doc_def new_scraper_def unique_keys_def doc_pairs_def
      table_pairs_def get_pokemon_data_def fetch_soup_def merge_tables_def dict_update_def
      get_table_dict_def)

text \<open>
  Claim C10. A call of the detail extractor never removes a key of the shared attribute
  mapping: a key the mapping holds, and for which the page contributes no pair, holds the
  same value after the call, whether the call returns or raises. So the attributes of an
  earlier entity carry over into the row of the next one unless that page overwrites them.
\<close>

theorem detail_extractor_keeps_keys:
  assumes held: "map_of (pokemon_dict_data s) k = Some v"
    and silent: "\<forall>doc. web url = Inr doc \<longrightarrow> k \<notin> set (page_keys doc)"
  shows "map_of (pokemon_dict_data (snd (get_pokemon_data web url s))) k = Some v"
proof (cases "web url")
  case (Inl e)
  then show ?thesis
    using held by (simp add: get_pokemon_data_unfetched)
next
  case (Inr doc)
  show ?thesis
  proof (cases "main_h1 doc")
    case None
    then show ?thesis
      using held Inr by (simp add: get_pokemon_data_headless)
  next
    case (Some name)
    have "k \<notin> set (page_keys doc)"
      using silent Inr by simp
    then have k: "k \<noteq> ''Pokemon Name''" "k \<notin> fst ` set (rev (doc_pairs doc))"
      using Some by (auto simp: page_keys_def)
    have "map_of (rev (doc_pairs doc)) k = None"
      using k(2) by (simp add: map_of_eq_None_iff)
    then show ?thesis
      using held k(1)
      using get_pokemon_data_ok [of web url doc name s] Inr Some
      by (simp add: map_of_merge_tables map_of_setitem map_add_def doc_pairs_def)
  qed
qed

theorem detail_extractor_keeps_keys_witness:
  "map_of [(''Pokemon Name'', ''Bulbasaur''), (''Type'', ''Grass / Poison'')] ''Type''
     = Some ''Grass / Poison''
   \<and> ''Type'' \<notin> set (page_keys ivysaur_doc)
   \<and> map_of (pokemon_dict_data
        (snd (get_pokemon_data (only_page ivysaur_doc) ''/pokedex/2''
               ((new_scraper None)
                 \<lparr>pokemon_dict_data :=
                    [(''Pokemon Name'', ''Bulbasaur''), (''Type'', ''Grass / Poison'')]\<rparr>))))
        ''Type'' = Some ''Grass / Poison''"
  using detail_extractor_keeps_keys
    [of "(new_scraper None)
           \<lparr>pokemon_dict_data :=
              [(''Pokemon Name'', ''Bulbasaur''), (''Type'', ''Grass / Poison'')]\<rparr>"
        "''Type''" "''Grass / Poison''" "only_page ivysaur_doc" "''/pokedex/2''"]
  by (simp add: only_page_def ivysaur_doc_def new_scraper_def page_keys_def doc_pairs_def)

section \<open>The listing extractor\<close>

lemma collect_hrefs_ok:
  "map (\<lambda>tag. map_of tag ''href'') tags = map Some hs \<Longrightarrow> collect_hrefs tags = Inr hs"
proof (induction tags arbitrary: hs)
  case Nil
  then show ?case by simp
next
  case (Cons tag tags)
  then obtain h hs' where hs: "hs = h # hs'"
    by (cases hs) auto
  with Cons.prems have "map_of tag ''href'' = Some h"
    and "map (\<lambda>tag. map_of tag ''href'') tags = map Some hs'"
    by simp_all
  then show ?case
    using Cons.IH [of hs'] by (simp add: hs getitem_def)
qed

lemma collect_hrefs_missing:
  "map_of tag ''href'' = None \<Longrightarrow> tag \<in> set tags \<Longrightarrow> collect_hrefs tags = Inl (KeyError ''href'')"
  by (induction tags) (auto simp: getitem_def split: option.splits sum.splits)

text \<open>
  Claim C6. On a listing page that is fetched and whose K matched anchors carry the link
  targets \<open>hs\<close>, one \<^verbatim>\<open>href\<close> each in document order, the listing extractor returns
  exactly \<open>hs\<close>: K links, in document order, none added, dropped or merged. With no
  matched anchor the result is the empty list and no exception.
\<close>

theorem listing_extractor_links:
  assumes path: "url_path s = Some path"
    and fetched: "web path = Inr doc"
    and hrefs: "map (\<lambda>tag. map_of tag ''href'') (anchors doc) = map Some hs"
  shows "get_urls web s = (None, s\<lparr>soup := Some doc, pokemon_url_suffixes := hs\<rparr>)
    \<and> length hs = length (anchors doc)
    \<and> (anchors doc = [] \<longrightarrow> hs = [])"
proof -
  have "collect_hrefs (anchors doc) = Inr hs"
    using hrefs by (rule collect_hrefs_ok)
  then have "get_urls web s = (None, s\<lparr>soup := Some doc, pokemon_url_suffixes := hs\<rparr>)"
    using path fetched by (simp add: get_urls_def fetch_soup_def)
  moreover have "length hs = length (anchors doc)"
    using hrefs by (metis length_map)
  ultimately show ?thesis by auto
qed

theorem listing_extractor_links_witness:
  "url_path (new_scraper (Some national_url)) = Some national_url
   \<and> e2e_web national_url = Inr listing_doc
   \<and> map (\<lambda>tag. map_of tag ''href'') (anchors listing_doc)
       = map Some [''/pokedex/1'', ''/pokedex/2'']
   \<and> get_urls e2e_web (new_scraper (Some national_url))
       = (None, (new_scraper (Some national_url))
                  \<lparr>soup := Some listing_doc,
                    pokemon_url_suffixes := [''/pokedex/1'', ''/pokedex/2'']\<rparr>)"
  using listing_extractor_links
    [of "new_scraper (Some national_url)" national_url e2e_web listing_doc
        "[''/pokedex/1'', ''/pokedex/2'']"]
  by (simp add: new_scraper_def national_url_def e2e_web_def listing_doc_def)

section \<open>The run\<close>

lemma scrape_loop_append:
  "scrape_loop web (pre @ post) s =
     (case scrape_loop web pre s of
        (Some e, s1) \<Rightarrow> (Some e, s1)
      | (None, s1) \<Rightarrow> scrape_loop web post s1)"
  by (induction pre arbitrary: s) (auto split: prod.splits option.splits)

lemma scrape_loop_headless:
  assumes "u \<in> set ls" and "web (build_pokemon_url u) = Inr doc" and "main_h1 doc = None"
  shows "fst (scrape_loop web ls s) \<noteq> None"
  using assms(1)
proof (induction ls arbitrary: s)
  case Nil
  then show ?case by simp
next
  case (Cons x xs)
  show ?case
  proof (cases "x = u")
    case True
    then show ?thesis
      using get_pokemon_data_headless [of web "build_pokemon_url u" doc s] assms(2,3) by simp
  next
    case False
    then have "u \<in> set xs"
      using Cons.prems by simp
    then show ?thesis
      using Cons.IH by (auto split: prod.splits option.splits)
  qed
qed

lemma scrape_loop_first_headless:
  assumes "fst (scrape_loop web pre s) = None"
    and "web (build_pokemon_url u) = Inr doc" and "main_h1 doc = None"
  shows "fst (scrape_loop web (pre @ u # post) s) = Some AttributeError"
proof -
  obtain s1 where "scrape_loop web pre s = (None, s1)"
    using assms(1) by (cases "scrape_loop web pre s") auto
  then show ?thesis
    using get_pokemon_data_headless [of web "build_pokemon_url u" doc s1] assms(2,3)
    by (simp add: scrape_loop_append)
qed

lemma main_aborted:
  "fst (run_scraping web (new_scraper (Some ''https://pokemondb.net/pokedex/national''))) = Some e
   \<Longrightarrow> fst (main web connection st) = Some e \<and> snd (snd (main web connection st)) = st"
  by (auto simp: main_def split: prod.splits option.splits)

text \<open>
  Claim C3. Take a run whose listing succeeded and in which the page of a listed entity
  \<open>u\<close> has no primary heading. The detail extractor raises on that page (the
  \<^verbatim>\<open>AttributeError\<close> of \<^verbatim>\<open>None.get_text\<close> is the code's missing-field error), the script
  ends with an exception, and the store is left as it was: nothing is persisted. When the
  entities before \<open>u\<close> were all processed, the exception of the run is that
  \<^verbatim>\<open>AttributeError\<close>.
\<close>

theorem missing_heading_aborts:
  assumes listed: "get_urls web (new_scraper (Some national_url)) = (None, s1)"
    and entity: "u \<in> set (pokemon_url_suffixes s1)"
    and fetched: "web (build_pokemon_url u) = Inr doc"
    and headless: "main_h1 doc = None"
  shows "fst (get_pokemon_data web (build_pokemon_url u) s) = Some AttributeError
    \<and> fst (main web connection st) \<noteq> None
    \<and> snd (snd (main web connection st)) = st
    \<and> (pokemon_url_suffixes s1 = pre @ u # post \<and> fst (scrape_loop web pre s1) = None
         \<longrightarrow> fst (main web connection st) = Some AttributeError)"
proof -
  let ?s0 = "new_scraper (Some ''https://pokemondb.net/pokedex/national'')"
  have run: "run_scraping web ?s0 = scrape_loop web (pokemon_url_suffixes s1) s1"
    using listed by (simp add: run_scraping_def national_url_def)
  have "fst (scrape_loop web (pokemon_url_suffixes s1) s1) \<noteq> None"
    using entity fetched headless by (rule scrape_loop_headless)
  then obtain e where e: "fst (run_scraping web ?s0) = Some e"
    using run by auto
  have extractor: "fst (get_pokemon_data web (build_pokemon_url u) s) = Some AttributeError"
    using get_pokemon_data_headless [of web "build_pokemon_url u" doc s] fetched headless by simp
  have aborted: "fst (main web connection st) \<noteq> None" "snd (snd (main web connection st)) = st"
    using main_aborted [OF e, of connection st] by simp_all
  have first: "fst (main web connection st) = Some AttributeError"
    if "pokemon_url_suffixes s1 = pre @ u # post" and "fst (scrape_loop web pre s1) = None"
  proof -
    have "fst (run_scraping web ?s0) = Some AttributeError"
      using scrape_loop_first_headless [OF that(2) fetched headless, of post] that(1) run
      by simp
    then show ?thesis
      using main_aborted [of web AttributeError connection st] by simp
  qed
  show ?thesis
    using extractor aborted first by blast
qed

theorem missing_heading_aborts_witness:
  "get_urls headless_web (new_scraper (Some national_url))
     = (None, (new_scraper (Some national_url))
                \<lparr>soup := Some listing_doc,
                  pokemon_url_suffixes := [''/pokedex/1'', ''/pokedex/2'']\<rparr>)
   \<and> headless_web (build_pokemon_url ''/pokedex/2'') = Inr headless_doc
   \<and> main_h1 headless_doc = None
   \<and> fst (scrape_loop headless_web [''/pokedex/1'']
            ((new_scraper (Some national_url))
                \<lparr>soup := Some listing_doc,
                  pokemon_url_suffixes := [''/pokedex/1'', ''/pokedex/2'']\<rparr>)) = None
   \<and> fst (main headless_web full_conn empty_store) = Some AttributeError
   \<and> snd (snd (main headless_web full_conn empty_store)) = empty_store"
  using missing_heading_aborts
    [where web = headless_web
       and ?s1.0 = "(new_scraper (Some national_url))
                \<lparr>soup := Some listing_doc,
                  pokemon_url_suffixes := [''/pokedex/1'', ''/pokedex/2'']\<rparr>"
       and u = "''/pokedex/2''" and doc = headless_doc and pre = "[''/pokedex/1'']"
       and post = "[]" and s = "new_scraper None" and connection = full_conn
       and st = empty_store]
  by (simp add: new_scraper_def national_url_def headless_web_def listing_doc_def
      headless_doc_def bulbasaur_doc_def build_pokemon_url_def get_urls_def fetch_soup_def
      getitem_def get_pokemon_data_def merge_tables_def dict_update_def get_table_dict_def)

text \<open>Only \<open>build_database\<close> writes the table, and it always leaves a row.\<close>

lemma get_urls_dataframe: "dataframe (snd (get_urls web s)) = dataframe s"
  by (simp add: get_urls_def fetch_soup_def split: option.splits sum.splits)

lemma get_pokemon_data_dataframe: "dataframe (snd (get_pokemon_data web url s)) = dataframe s"
  by (simp add: get_pokemon_data_def fetch_soup_def split: option.splits sum.splits)

lemma build_database_rows: "unset_or_rows (dataframe (build_database s))"
  by (simp add: unset_or_rows_def build_database_def row_frame_def concat_frames_def Let_def
      split: option.splits)

lemma scrape_loop_rows:
  "unset_or_rows (dataframe s) \<Longrightarrow> unset_or_rows (dataframe (snd (scrape_loop web ls s)))"
proof (induction ls arbitrary: s)
  case Nil
  then show ?case by simp
next
  case (Cons u us)
  obtain r s1 where step: "get_pokemon_data web (build_pokemon_url u) s = (r, s1)"
    by (cases "get_pokemon_data web (build_pokemon_url u) s")
  then have same: "dataframe s1 = dataframe s"
    using get_pokemon_data_dataframe [of web "build_pokemon_url u" s] by simp
  show ?case
  proof (cases r)
    case None
    then show ?thesis
      using Cons.IH [OF build_database_rows [of s1]] step by simp
  next
    case (Some e)
    then show ?thesis
      using step same Cons.prems by simp
  qed
qed

lemma run_scraping_rows: "unset_or_rows (dataframe (snd (run_scraping web (new_scraper p))))"
proof -
  let ?s0 = "new_scraper p"
  obtain r s1 where listed: "get_urls web ?s0 = (r, s1)"
    by (cases "get_urls web ?s0")
  then have "dataframe s1 = None"
    using get_urls_dataframe [of web ?s0] by (simp add: new_scraper_def)
  then have unset: "unset_or_rows (dataframe s1)"
    by (simp add: unset_or_rows_def)
  show ?thesis
  proof (cases r)
    case None
    then show ?thesis
      using scrape_loop_rows [OF unset, of web "pokemon_url_suffixes s1"] listed
      by (simp add: run_scraping_def)
  next
    case (Some e)
    then show ?thesis
      using listed unset by (simp add: run_scraping_def)
  qed
qed

section \<open>Persisting\<close>

text \<open>
  Claim C2, as amended. For every scraper whose table is unset and every connection
  dictionary, persisting raises the empty-table error (a \<^verbatim>\<open>ValueError\<close>) and the store is
  exactly as before: no connection is opened and no table is created or replaced. The
  table a run leaves behind is unset or has at least one row, so a table of the pipeline
  with no rows is always rejected.
\<close>

theorem persist_rejects_unset_table:
  "(dataframe s = None \<longrightarrow> save_dataframe_to_oracle s conn st = (Some ValueError, st))
   \<and> unset_or_rows (dataframe (snd (run_scraping web (new_scraper p))))"
  by (simp add: save_dataframe_to_oracle_def run_scraping_rows)

theorem persist_rejects_unset_table_witness:
  "dataframe (new_scraper (Some national_url)) = None
   \<and> save_dataframe_to_oracle (new_scraper (Some national_url)) full_conn empty_store
       = (Some ValueError, empty_store)
   \<and> dataframe (snd (run_scraping e2e_web (new_scraper (Some national_url))))
       = Some \<lparr>columns = [''Pokemon Name'', ''Type''],
               rows = [[Some ''Bulbasaur'', Some ''Grass / Poison''],
                       [Some ''Ivysaur'', Some ''Grass / Poison'']]\<rparr>
   \<and> unset_or_rows (dataframe (snd (run_scraping e2e_web (new_scraper (Some national_url)))))"
  using persist_rejects_unset_table
    [where s = "new_scraper (Some national_url)" and conn = full_conn and st = empty_store
       and web = e2e_web and p = "Some national_url"]
  by (simp add: new_scraper_def national_url_def e2e_web_def listing_doc_def
      bulbasaur_doc_def ivysaur_doc_def build_pokemon_url_def get_urls_def fetch_soup_def
      getitem_def get_pokemon_data_def merge_tables_def dict_update_def get_table_dict_def
      run_scraping_def build_database_def row_frame_def concat_frames_def reindex_def)

text \<open>
  The claim as stated fails for a table that is set and has no rows, which the field
  \<open>dataframe\<close> of the class accepts: the guard tests \<^verbatim>\<open>is None\<close> only, a connection is opened
  and an empty destination table is written.
\<close>

theorem persist_zero_rows_counterexample:
  "rows zero_row_frame = []
   \<and> save_dataframe_to_oracle ((new_scraper None)\<lparr>dataframe := Some zero_row_frame\<rparr>)
        full_conn empty_store
      = (None, \<lparr>connections = [(''scott'', ''tiger'', ''db:1521/XE'')], online = True,
                db_tables = [(''master_pokemon'', zero_row_frame)]\<rparr>)"
  by (simp add: zero_row_frame_def new_scraper_def full_conn_def empty_store_def
      save_dataframe_to_oracle_def getitem_def to_sql_def)

text \<open>
  Claim C9. With a table that is set, a connection dictionary that lacks one of the six
  required keys makes persisting raise the \<^verbatim>\<open>KeyError\<close> of a missing required key (the
  first one missing in the order the code reads them); no default is substituted and the
  store is not touched.
\<close>

theorem persist_missing_key:
  assumes table: "dataframe s = Some df"
    and missing: "\<exists>k \<in> set required_keys. map_of conn k = None"
  shows "\<exists>k \<in> set required_keys.
           map_of conn k = None
           \<and> save_dataframe_to_oracle s conn st = (Some (KeyError k), st)"
  using assms
  by (auto simp: required_keys_def save_dataframe_to_oracle_def getitem_def
      split: option.splits)

theorem persist_missing_key_witness:
  "dataframe ((new_scraper None)\<lparr>dataframe := Some (row_frame [(''Pokemon Name'', ''Mew'')])\<rparr>)
     = Some (row_frame [(''Pokemon Name'', ''Mew'')])
   \<and> ''port'' \<in> set required_keys
   \<and> map_of [(''user'', ''scott''), (''password'', ''tiger''), (''host'', ''db''),
              (''service'', ''XE''), (''table_name'', ''master_pokemon'')] ''port'' = None
   \<and> save_dataframe_to_oracle
        ((new_scraper None)\<lparr>dataframe := Some (row_frame [(''Pokemon Name'', ''Mew'')])\<rparr>)
        [(''user'', ''scott''), (''password'', ''tiger''), (''host'', ''db''),
         (''service'', ''XE''), (''table_name'', ''master_pokemon'')]
        empty_store
      = (Some (KeyError ''port''), empty_store)"
  using persist_missing_key
    [where s = "(new_scraper None)\<lparr>dataframe := Some (row_frame [(''Pokemon Name'', ''Mew'')])\<rparr>"
       and df = "row_frame [(''Pokemon Name'', ''Mew'')]"
       and conn = "[(''user'', ''scott''), (''password'', ''tiger''), (''host'', ''db''),
                    (''service'', ''XE''), (''table_name'', ''master_pokemon'')]"
       and st = empty_store]
  by (simp add: new_scraper_def required_keys_def save_dataframe_to_oracle_def getitem_def)

section \<open>The end-to-end scenario\<close>

text \<open>
  Claim C1. On the two-entity site of the scenario the run succeeds and the table has two
  rows over the columns \<^verbatim>\<open>Pokemon Name\<close> and \<^verbatim>\<open>Type\<close>, but the second row holds the
  \<^verbatim>\<open>Type\<close> of the first entity and not the empty value: the attribute mapping is shared
  and never reset between entities.
\<close>

theorem e2e_second_row_keeps_type:
  "fst (run_scraping e2e_web (new_scraper (Some national_url))) = None
   \<and> dataframe (snd (run_scraping e2e_web (new_scraper (Some national_url))))
       = Some \<lparr>columns = [''Pokemon Name'', ''Type''],
               rows = [[Some ''Bulbasaur'', Some ''Grass / Poison''],
                       [Some ''Ivysaur'', Some ''Grass / Poison'']]\<rparr>"
  by (simp add: new_scraper_def national_url_def e2e_web_def listing_doc_def
      bulbasaur_doc_def ivysaur_doc_def build_pokemon_url_def get_urls_def fetch_soup_def
      getitem_def get_pokemon_data_def merge_tables_def dict_update_def get_table_dict_def
      run_scraping_def build_database_def row_frame_def concat_frames_def reindex_def)

section \<open>The table accumulator\<close>

lemma map_of_zip_Some:
  "map_of (zip (map fst d) (map (\<lambda>kv. Some (snd kv)) d)) c = map_option Some (map_of d c)"
  by (induction d) auto

lemma cell_row_frame:
  "cell (row_frame d) (map (\<lambda>kv. Some (snd kv)) d) c = map_option Some (map_of d c)"
  by (simp add: cell_def row_frame_def map_of_zip_Some)

lemma reindex_new_row:
  "reindex (map fst d) cols (map (\<lambda>kv. Some (snd kv)) d) = map (map_of d) cols"
  by (simp add: reindex_def map_of_zip_Some split: option.splits)

lemma map_of_zip_reindex:
  "c \<in> set new \<Longrightarrow>
   map_of (zip new (reindex old new r)) c
     = Some (case map_of (zip old r) c of None \<Rightarrow> None | Some x \<Rightarrow> x)"
  by (simp add: reindex_def map_of_zip_map)

lemma map_of_zip_map_in: "c \<in> set cols \<Longrightarrow> map_of (zip cols (map f cols)) c = Some (f c)"
  by (simp add: map_of_zip_map)

subsection \<open>The display-name column\<close>

lemma names_satisfy_concat:
  assumes old: "names_satisfy P (Some df)"
    and name: "map_of d ''Pokemon Name'' = Some v" and ok: "P v"
  shows "names_satisfy P (Some (concat_frames df (row_frame d)))"
proof -
  let ?pn = "''Pokemon Name''"
  let ?cols = "columns df @ filter (\<lambda>c. c \<notin> set (columns df)) (map fst d)"
  have key: "?pn \<in> fst ` set d"
    using name by (metis map_of_eq_None_iff option.distinct(1))
  then have incols: "?pn \<in> set ?cols"
    by auto
  have new: "map_of (zip ?cols (reindex (map fst d) ?cols (map (\<lambda>kv. Some (snd kv)) d))) ?pn
               = Some (Some v)"
    using map_of_zip_map_in [OF incols, of "map_of d"] name
    by (simp only: reindex_new_row)
  have prior: "(case map_of (zip ?cols (reindex (columns df) ?cols r)) ?pn of
                  Some (Some v) \<Rightarrow> P v | _ \<Rightarrow> False)"
    if "r \<in> set (rows df)" for r
  proof -
    have "(case map_of (zip (columns df) r) ?pn of Some (Some v) \<Rightarrow> P v | _ \<Rightarrow> False)"
      using old that by (simp add: names_satisfy_def cell_def list_all_iff)
    then show ?thesis
      using map_of_zip_reindex [OF incols, of "columns df" r]
      by (simp split: option.splits)
  qed
  show ?thesis
    using new prior ok
    by (simp add: names_satisfy_def cell_def concat_frames_def row_frame_def list_all_iff Let_def)
qed

lemma names_satisfy_build_database:
  assumes "names_satisfy P (dataframe s)"
    and "map_of (pokemon_dict_data s) ''Pokemon Name'' = Some v" and "P v"
  shows "names_satisfy P (dataframe (build_database s))"
proof (cases "dataframe s")
  case None
  then show ?thesis
    using assms(2,3) cell_row_frame [of "pokemon_dict_data s" "''Pokemon Name''"]
    by (simp add: build_database_def names_satisfy_def row_frame_def)
next
  case (Some df)
  then show ?thesis
    using names_satisfy_concat [of P df "pokemon_dict_data s" v] assms
    by (simp add: build_database_def)
qed

lemma scrape_loop_names:
  assumes step: "\<And>u s s1. u \<in> set ls \<Longrightarrow>
                   get_pokemon_data web (build_pokemon_url u) s = (None, s1) \<Longrightarrow>
                   \<exists>v. map_of (pokemon_dict_data s1) ''Pokemon Name'' = Some v \<and> P v"
    and start: "names_satisfy P (dataframe s)"
  shows "names_satisfy P (dataframe (snd (scrape_loop web ls s)))"
  using step start
proof (induction ls arbitrary: s)
  case Nil
  then show ?case by simp
next
  case (Cons u us)
  obtain r s1 where got: "get_pokemon_data web (build_pokemon_url u) s = (r, s1)"
    by (cases "get_pokemon_data web (build_pokemon_url u) s")
  then have same: "dataframe s1 = dataframe s"
    using get_pokemon_data_dataframe [of web "build_pokemon_url u" s] by simp
  show ?case
  proof (cases r)
    case None
    then obtain v where v: "map_of (pokemon_dict_data s1) ''Pokemon Name'' = Some v" "P v"
      using Cons.prems(1) [of u s s1] got by auto
    have built: "names_satisfy P (dataframe (build_database s1))"
      using names_satisfy_build_database [of P s1 v] v same Cons.prems(2) by simp
    have "names_satisfy P (dataframe (snd (scrape_loop web us (build_database s1))))"
    proof (rule Cons.IH)
      show "\<exists>v. map_of (pokemon_dict_data s1') ''Pokemon Name'' = Some v \<and> P v"
        if "u' \<in> set us" and "get_pokemon_data web (build_pokemon_url u') s' = (None, s1')"
        for u' s' s1'
        using Cons.prems(1) [of u' s' s1'] that by simp
      show "names_satisfy P (dataframe (build_database s1))"
        by (rule built)
    qed
    then show ?thesis
      using got None by simp
  next
    case (Some e)
    then show ?thesis
      using got same Cons.prems(2) by simp
  qed
qed

lemma extracted_name:
  assumes "get_pokemon_data web url s = (None, s1)"
  shows "\<exists>doc name. web url = Inr doc \<and> main_h1 doc = Some name
           \<and> map_of (pokemon_dict_data s1) ''Pokemon Name''
               = Some (case map_of (rev (doc_pairs doc)) ''Pokemon Name'' of
                         None \<Rightarrow> name | Some v \<Rightarrow> v)"
proof (cases "web url")
  case (Inl e)
  then show ?thesis
    using assms by (simp add: get_pokemon_data_unfetched)
next
  case (Inr doc)
  show ?thesis
  proof (cases "main_h1 doc")
    case None
    then show ?thesis
      using assms Inr by (simp add: get_pokemon_data_headless)
  next
    case (Some name)
    have "s1 = s\<lparr>soup := Some doc,
                 pokemon_dict_data :=
                   merge_tables (tab_basic_tables doc)
                     (setitem ''Pokemon Name'' name (pokemon_dict_data s))\<rparr>"
      using get_pokemon_data_ok [of web url doc name s] Inr Some assms by simp
    then show ?thesis
      using Inr Some
      by (simp add: map_of_merge_tables map_of_setitem map_add_def doc_pairs_def
          split: option.splits)
  qed
qed

lemma extracted_name_nonempty:
  assumes got: "get_pokemon_data web url s = (None, s1)"
    and page: "case web url of Inl e \<Rightarrow> True | Inr doc \<Rightarrow> named_page doc"
  shows "\<exists>v. map_of (pokemon_dict_data s1) ''Pokemon Name'' = Some v \<and> v \<noteq> []"
proof -
  obtain doc name where doc: "web url = Inr doc" "main_h1 doc = Some name"
    and v: "map_of (pokemon_dict_data s1) ''Pokemon Name''
              = Some (case map_of (rev (doc_pairs doc)) ''Pokemon Name'' of
                        None \<Rightarrow> name | Some v \<Rightarrow> v)"
    using extracted_name [OF got] by blast
  have named: "named_page doc"
    using page doc(1) by simp
  show ?thesis
  proof (cases "map_of (rev (doc_pairs doc)) ''Pokemon Name''")
    case None
    then show ?thesis
      using v named doc(2) by (auto simp: named_page_def)
  next
    case (Some w)
    then have "(''Pokemon Name'', w) \<in> set (doc_pairs doc)"
      using map_of_SomeD [of "rev (doc_pairs doc)" "''Pokemon Name''" w] by simp
    then have "w \<noteq> []"
      using named by (auto simp: named_page_def)
    then show ?thesis
      using v Some by simp
  qed
qed

lemma scrape_loop_names_filled:
  assumes "dataframe s = None"
  shows "names_filled (dataframe (snd (scrape_loop web ls s)))"
  unfolding names_filled_def
proof (rule scrape_loop_names)
  fix u s' s1
  assume "get_pokemon_data web (build_pokemon_url u) s' = (None, s1)"
  then show "\<exists>v. map_of (pokemon_dict_data s1) ''Pokemon Name'' = Some v \<and> True"
    using extracted_name [of web "build_pokemon_url u" s' s1] by auto
next
  show "names_satisfy (\<lambda>v. True) (dataframe s)"
    using assms by (simp add: names_satisfy_def)
qed

lemma scrape_loop_names_nonempty:
  assumes "dataframe s = None" and pages: "named_pages web ls"
  shows "names_nonempty (dataframe (snd (scrape_loop web ls s)))"
  unfolding names_nonempty_def
proof (rule scrape_loop_names)
  fix u s' s1
  assume "u \<in> set ls" and "get_pokemon_data web (build_pokemon_url u) s' = (None, s1)"
  then show "\<exists>v. map_of (pokemon_dict_data s1) ''Pokemon Name'' = Some v \<and> v \<noteq> []"
    using pages extracted_name_nonempty [of web "build_pokemon_url u" s' s1]
    by (simp add: named_pages_def list_all_iff)
next
  show "names_satisfy (\<lambda>v. v \<noteq> []) (dataframe s)"
    using assms(1) by (simp add: names_satisfy_def)
qed

lemma run_scraping_cases:
  obtains e s1 where "get_urls web s = (Some e, s1)" and "run_scraping web s = (Some e, s1)"
  | s1 where "get_urls web s = (None, s1)"
      and "run_scraping web s = scrape_loop web (pokemon_url_suffixes s1) s1"
proof (cases "get_urls web s")
  case (Pair r s1)
  show ?thesis
  proof (cases r)
    case None
    then show ?thesis
      using Pair that(2) [of s1] by (simp add: run_scraping_def)
  next
    case (Some e)
    then show ?thesis
      using Pair that(1) [of e s1] by (simp add: run_scraping_def)
  qed
qed

text \<open>
  Claim C8, as amended. Start from a scraper whose table is unset. After the loop over any
  list of entities, so at every point of a run, and after the run itself, whether it
  returns or raises, every row of the table has a text in the \<^verbatim>\<open>Pokemon Name\<close> column, never
  a missing value; every append keeps this. The text is non-empty in every row when the
  detail pages of the listed entities have a non-empty heading text and no attribute row
  labelled \<^verbatim>\<open>Pokemon Name\<close> with empty data.
\<close>

theorem display_names_in_rows:
  assumes unset: "dataframe s = None"
  shows "names_filled (dataframe (snd (scrape_loop web ls s)))
    \<and> (named_pages web ls \<longrightarrow> names_nonempty (dataframe (snd (scrape_loop web ls s))))
    \<and> names_filled (dataframe (snd (run_scraping web s)))
    \<and> (named_pages web (pokemon_url_suffixes (snd (get_urls web s)))
         \<longrightarrow> names_nonempty (dataframe (snd (run_scraping web s))))"
proof -
  have loop: "names_filled (dataframe (snd (scrape_loop web ls s)))"
    "named_pages web ls \<longrightarrow> names_nonempty (dataframe (snd (scrape_loop web ls s)))"
    using unset by (simp_all add: scrape_loop_names_filled scrape_loop_names_nonempty)
  have run: "names_filled (dataframe (snd (run_scraping web s)))
    \<and> (named_pages web (pokemon_url_suffixes (snd (get_urls web s)))
         \<longrightarrow> names_nonempty (dataframe (snd (run_scraping web s))))"
  proof (cases rule: run_scraping_cases [of web s])
    case (1 e s1)
    then have "dataframe s1 = None"
      using get_urls_dataframe [of web s] unset by simp
    then show ?thesis
      using 1 by (simp add: names_filled_def names_nonempty_def names_satisfy_def)
  next
    case (2 s1)
    then have "dataframe s1 = None"
      using get_urls_dataframe [of web s] unset by simp
    then show ?thesis
      using 2 by (simp add: scrape_loop_names_filled scrape_loop_names_nonempty)
  qed
  show ?thesis
    using loop run by simp
qed

theorem display_names_in_rows_witness:
  "dataframe (new_scraper (Some national_url)) = None
   \<and> named_pages e2e_web [''/pokedex/1'']
   \<and> names_nonempty (dataframe (snd (scrape_loop e2e_web [''/pokedex/1'']
        (new_scraper (Some national_url)))))
   \<and> pokemon_url_suffixes (snd (get_urls e2e_web (new_scraper (Some national_url))))
       = [''/pokedex/1'', ''/pokedex/2'']
   \<and> named_pages e2e_web [''/pokedex/1'', ''/pokedex/2'']
   \<and> names_filled (dataframe (snd (run_scraping e2e_web (new_scraper (Some national_url)))))
   \<and> names_nonempty (dataframe (snd (run_scraping e2e_web (new_scraper (Some national_url)))))"
  using display_names_in_rows
    [where s = "new_scraper (Some national_url)" and web = e2e_web
       and ls = "[''/pokedex/1'']"]
  by (simp add: new_scraper_def national_url_def named_pages_def named_page_def e2e_web_def
      build_pokemon_url_def listing_doc_def bulbasaur_doc_def ivysaur_doc_def doc_pairs_def
      table_pairs_def get_urls_def fetch_soup_def getitem_def)

text \<open>
  The claim as stated fails when a heading has no text: the row is appended with the
  empty string as its display name.
\<close>

theorem display_name_empty_counterexample:
  "fst (run_scraping blank_web (new_scraper (Some national_url))) = None
   \<and> dataframe (snd (run_scraping blank_web (new_scraper (Some national_url))))
       = Some \<lparr>columns = [''Pokemon Name''], rows = [[Some []]]\<rparr>
   \<and> \<not> names_nonempty (dataframe (snd (run_scraping blank_web (new_scraper (Some national_url)))))"
  by (simp add: new_scraper_def national_url_def blank_web_def blank_listing_doc_def
      blank_doc_def build_pokemon_url_def get_urls_def fetch_soup_def
      getitem_def get_pokemon_data_def merge_tables_def
      run_scraping_def build_database_def row_frame_def
      names_nonempty_def names_satisfy_def cell_def)

subsection \<open>Column union\<close>

lemma append_rows_snoc:
  "append_rows s (ds @ [d]) = build_database ((append_rows s ds)\<lparr>pokemon_dict_data := d\<rparr>)"
  by (induction ds arbitrary: s) simp_all

lemma remdups_append_filter:
  "remdups (xs @ ys) = filter (\<lambda>x. x \<notin> set ys) (remdups xs) @ remdups ys"
  by (induction xs) auto

lemma first_seen_append:
  "rev (remdups (rev (xs @ ys)))
     = rev (remdups (rev xs)) @ filter (\<lambda>c. c \<notin> set xs) (rev (remdups (rev ys)))"
  by (simp add: remdups_append_filter rev_filter)

lemma union_columns_snoc:
  assumes "distinct (map fst d)"
  shows "union_columns (ds @ [d])
           = union_columns ds @ filter (\<lambda>c. c \<notin> set (union_columns ds)) (map fst d)"
proof -
  let ?xs = "concat (map (map fst) ds)"
  have own: "rev (remdups (rev (map fst d))) = map fst d"
    using assms by (simp add: distinct_remdups_id)
  have "union_columns (ds @ [d]) = rev (remdups (rev (?xs @ map fst d)))"
    by (simp add: union_columns_def)
  also have "\<dots> = rev (remdups (rev ?xs)) @ filter (\<lambda>c. c \<notin> set ?xs) (map fst d)"
    by (simp only: first_seen_append own)
  also have "\<dots> = union_columns ds @ filter (\<lambda>c. c \<notin> set (union_columns ds)) (map fst d)"
    by (simp add: union_columns_def)
  finally show ?thesis .
qed

lemma set_union_columns: "set (union_columns ds) = (\<Union>d \<in> set ds. fst ` set d)"
  by (auto simp: union_columns_def)

lemma distinct_union_columns: "distinct (union_columns ds)"
  by (simp add: union_columns_def)

lemma reindex_old_row:
  assumes "fst ` set d \<subseteq> set cols"
  shows "reindex cols new (map (map_of d) cols) = map (map_of d) new"
proof -
  have "(case map_of (zip cols (map (map_of d) cols)) c of None \<Rightarrow> None | Some x \<Rightarrow> x)
          = map_of d c" for c
  proof (cases "c \<in> set cols")
    case True
    then show ?thesis by (simp add: map_of_zip_map)
  next
    case False
    then have "c \<notin> fst ` set d"
      using assms by auto
    then have "map_of d c = None"
      by (simp add: map_of_eq_None_iff)
    then show ?thesis
      using False by (simp add: map_of_zip_map)
  qed
  then show ?thesis
    by (simp add: reindex_def)
qed

lemma row_values_distinct:
  "distinct (map fst d) \<Longrightarrow> map (\<lambda>kv. Some (snd kv)) d = map (map_of d) (map fst d)"
  by (induction d) (auto simp: image_iff)

lemma batch_table_single:
  "distinct (map fst d) \<Longrightarrow> batch_table [d] = Some (row_frame d)"
  by (simp add: batch_table_def union_columns_def row_frame_def row_values_distinct
      distinct_remdups_id)

lemma batch_table_snoc:
  assumes "ds \<noteq> []" and "distinct (map fst d)"
  shows "batch_table (ds @ [d])
           = Some (concat_frames (the (batch_table ds)) (row_frame d))"
proof -
  let ?U = "union_columns ds"
  let ?V = "?U @ filter (\<lambda>c. c \<notin> set ?U) (map fst d)"
  have V: "union_columns (ds @ [d]) = ?V"
    using assms(2) by (rule union_columns_snoc)
  have old: "map (reindex ?U ?V) (map (\<lambda>d. map (map_of d) ?U) ds)
               = map (\<lambda>d. map (map_of d) ?V) ds"
  proof -
    have "reindex ?U ?V (map (map_of d') ?U) = map (map_of d') ?V" if "d' \<in> set ds" for d'
      using that by (intro reindex_old_row) (auto simp: set_union_columns)
    then show ?thesis by simp
  qed
  show ?thesis
    using assms(1) old
    by (simp add: batch_table_def V concat_frames_def row_frame_def reindex_new_row Let_def)
qed

text \<open>Appending row after row builds the table of the batch.\<close>

lemma append_rows_batch:
  assumes "dataframe s = None" and "\<forall>d \<in> set ds. distinct (map fst d)"
  shows "dataframe (append_rows s ds) = batch_table ds"
  using assms(2)
proof (induction ds rule: rev_induct)
  case Nil
  then show ?case
    using assms(1) by (simp add: batch_table_def)
next
  case (snoc d ds)
  then have IH: "dataframe (append_rows s ds) = batch_table ds" and d: "distinct (map fst d)"
    by simp_all
  show ?case
  proof (cases "ds = []")
    case True
    then show ?thesis
      using assms(1) d by (simp add: build_database_def batch_table_single)
  next
    case False
    then obtain df where df: "batch_table ds = Some df"
      by (simp add: batch_table_def)
    then show ?thesis
      using IH batch_table_snoc [OF False d]
      by (simp add: append_rows_snoc build_database_def)
  qed
qed

lemma append_rows_append: "append_rows s (xs @ ys) = append_rows (append_rows s xs) ys"
  by (induction xs arbitrary: s) simp_all

text \<open>
  Claim C4. Appending R rows (R at least 1, each a dictionary, so with distinct keys) to
  an unset table gives a table whose column set is the union of the key sets of the rows
  and which has R rows, each with one cell for every column. The cell of row i under
  column c is the value of c in the i-th appended row when that row has the key c, and
  the empty value (NaN) when it has not, whether c was first seen before or after row i:
  new columns are backfilled as empty in the prior rows, and columns absent from a row
  are empty in that row.
\<close>

theorem table_accumulator_columns:
  assumes unset: "dataframe s = None"
    and some: "ds \<noteq> []"
    and dicts: "\<forall>d \<in> set ds. distinct (map fst d)"
  shows "\<exists>df. dataframe (append_rows s ds) = Some df
    \<and> set (columns df) = (\<Union>d \<in> set ds. set (map fst d))
    \<and> distinct (columns df)
    \<and> length (rows df) = length ds
    \<and> (\<forall>i < length ds.
          length (rows df ! i) = length (columns df)
          \<and> (\<forall>c \<in> set (columns df). cell df (rows df ! i) c = Some (map_of (ds ! i) c)))"
proof -
  let ?U = "union_columns ds"
  let ?df = "\<lparr>columns = ?U, rows = map (\<lambda>d. map (map_of d) ?U) ds\<rparr>"
  have table: "dataframe (append_rows s ds) = Some ?df"
    using append_rows_batch [OF unset dicts] some by (simp add: batch_table_def)
  have cols: "set (columns ?df) = (\<Union>d \<in> set ds. set (map fst d))"
    by (simp add: set_union_columns)
  have cells: "length (rows ?df ! i) = length (columns ?df)
      \<and> (\<forall>c \<in> set (columns ?df). cell ?df (rows ?df ! i) c = Some (map_of (ds ! i) c))"
    if "i < length ds" for i
    using that by (simp add: cell_def map_of_zip_map)
  show ?thesis
    using table cols cells distinct_union_columns [of ds] by (intro exI [of _ ?df]) simp
qed

theorem table_accumulator_columns_witness:
  "dataframe (new_scraper None) = None
   \<and> distinct (map fst [(''Pokemon Name'', ''Bulbasaur''), (''Type'', ''Grass / Poison'')])
   \<and> distinct (map fst [(''Pokemon Name'', ''Mew''), (''Height'', ''0.4 m'')])
   \<and> dataframe (append_rows (new_scraper None)
        [[(''Pokemon Name'', ''Bulbasaur''), (''Type'', ''Grass / Poison'')],
         [(''Pokemon Name'', ''Mew''), (''Height'', ''0.4 m'')]])
      = Some \<lparr>columns = [''Pokemon Name'', ''Type'', ''Height''],
              rows = [[Some ''Bulbasaur'', Some ''Grass / Poison'', None],
                      [Some ''Mew'', None, Some ''0.4 m'']]\<rparr>"
  using table_accumulator_columns
    [where s = "new_scraper None"
       and ds = "[[(''Pokemon Name'', ''Bulbasaur''), (''Type'', ''Grass / Poison'')],
                  [(''Pokemon Name'', ''Mew''), (''Height'', ''0.4 m'')]]"]
  by (simp add: new_scraper_def build_database_def row_frame_def concat_frames_def reindex_def)

text \<open>
  Claim C7. For every sequence of rows, appending them one at a time to an unset table
  gives the table of the whole batch: the same columns in the same order, the same rows
  in the same order. Appending in two portions gives the same as appending in one.
\<close>

theorem accumulation_matches_batch:
  assumes "dataframe s = None" and "\<forall>d \<in> set ds. distinct (map fst d)"
  shows "dataframe (append_rows s ds) = batch_table ds
    \<and> (ds = xs @ ys \<longrightarrow> append_rows s ds = append_rows (append_rows s xs) ys)"
  using append_rows_batch [OF assms] by (simp add: append_rows_append)

theorem accumulation_matches_batch_witness:
  "dataframe (new_scraper None) = None
   \<and> distinct (map fst [(''Pokemon Name'', ''Bulbasaur''), (''Type'', ''Grass / Poison'')])
   \<and> distinct (map fst [(''Pokemon Name'', ''Mew''), (''Height'', ''0.4 m'')])
   \<and> dataframe (append_rows (new_scraper None)
        [[(''Pokemon Name'', ''Bulbasaur''), (''Type'', ''Grass / Poison'')],
         [(''Pokemon Name'', ''Mew''), (''Height'', ''0.4 m'')]])
      = batch_table
        [[(''Pokemon Name'', ''Bulbasaur''), (''Type'', ''Grass / Poison'')],
         [(''Pokemon Name'', ''Mew''), (''Height'', ''0.4 m'')]]
   \<and> batch_table
        [[(''Pokemon Name'', ''Bulbasaur''), (''Type'', ''Grass / Poison'')],
         [(''Pokemon Name'', ''Mew''), (''Height'', ''0.4 m'')]]
      = Some \<lparr>columns = [''Pokemon Name'', ''Type'', ''Height''],
              rows = [[Some ''Bulbasaur'', Some ''Grass / Poison'', None],
                      [Some ''Mew'', None, Some ''0.4 m'']]\<rparr>"
  using accumulation_matches_batch
    [where s = "new_scraper None"
       and ds = "[[(''Pokemon Name'', ''Bulbasaur''), (''Type'', ''Grass / Poison'')],
                  [(''Pokemon Name'', ''Mew''), (''Height'', ''0.4 m'')]]"
       and xs = "[[(''Pokemon Name'', ''Bulbasaur''), (''Type'', ''Grass / Poison'')]]"
       and ys = "[[(''Pokemon Name'', ''Mew''), (''Height'', ''0.4 m'')]]"]
  by (simp add: new_scraper_def batch_table_def union_columns_def)

end
